theory Spec2Isabelle
  imports Main
begin

section \<open>Python text primitives\<close>

text \<open>
  Python \<open>str\<close> values are modelled as \<open>string\<close>; a character is one code point
  below 256.  \<open>str(n)\<close> for an \<open>int\<close> is the decimal numeral with a leading minus sign
  for negative values; \<open>None\<close> is formatted as the text \<open>None\<close>.
\<close>

definition digit_char :: "nat \<Rightarrow> char" where
  "digit_char d = char_of (48 + d)"

function str_nat :: "nat \<Rightarrow> string" where
  "str_nat n = (if n < 10 then [digit_char n] else str_nat (n div 10) @ [digit_char (n mod 10)])"
  by pat_completeness auto
termination
  by (relation "measure id") auto

definition str_int :: "int \<Rightarrow> string" where
  "str_int i = (if i < 0 then CHR ''-'' # str_nat (nat (- i)) else str_nat (nat i))"

definition fmt_int_opt :: "int option \<Rightarrow> string" where
  "fmt_int_opt v = (case v of None \<Rightarrow> ''None'' | Some i \<Rightarrow> str_int i)"

definition truthy :: "string option \<Rightarrow> bool" where
  \<comment> \<open>\<open>if value:\<close> on a nullable text column: neither \<open>None\<close> nor the empty string\<close>
  "truthy v = (case v of None \<Rightarrow> False | Some s \<Rightarrow> s \<noteq> [])"

section \<open>Chapter structure (rag-pipeline-builder.py)\<close>

record toc_section =
  sec_number :: string
  sec_title :: string
  sec_page :: int

record toc_chapter =
  ch_number :: int
  ch_title :: string
  ch_start_page :: int
  ch_sections :: "toc_section list"

subsection \<open>\<open>_find_chapter_section\<close>\<close>

text \<open>
  The inner loop over one chapter's sections: every section with \<open>page \<le> page_number\<close>
  overwrites \<open>section_num\<close>.  The variable is initialised once, before the outer loop,
  and is passed from chapter to chapter.
\<close>

fun find_section_loop :: "int \<Rightarrow> toc_section list \<Rightarrow> string option \<Rightarrow> string option" where
  "find_section_loop page_number [] section_num = section_num"
| "find_section_loop page_number (s # ss) section_num =
     find_section_loop page_number ss
       (if page_number \<ge> sec_page s then Some (sec_number s) else section_num)"

fun find_chapter_loop ::
  "int \<Rightarrow> toc_chapter list \<Rightarrow> int option \<times> string option \<Rightarrow> int option \<times> string option" where
  "find_chapter_loop page_number [] acc = acc"
| "find_chapter_loop page_number (c # cs) (chapter_num, section_num) =
     find_chapter_loop page_number cs
       (if page_number \<ge> ch_start_page c
        then (Some (ch_number c), find_section_loop page_number (ch_sections c) section_num)
        else (chapter_num, section_num))"

definition find_chapter_section :: "toc_chapter list \<Rightarrow> int \<Rightarrow> int option \<times> string option" where
  "find_chapter_section chapters page_number = find_chapter_loop page_number chapters (None, None)"

subsection \<open>Rows of the enhanced tables\<close>

text \<open>
  A row of \<open>conditions_enhanced\<close> and of \<open>medications_enhanced\<close>, in the column order
  of the two SELECT statements.  Nullable columns are options.  The column
  \<open>reference_citation\<close> is only ever written by \<open>_merge_ocr_with_chapters\<close>, which
  stores a formatted string.
\<close>

record condition_row =
  cr_id :: int
  cr_name :: string
  cr_chapter_number :: "int option"
  cr_section_number :: "string option"
  cr_page_number :: int
  cr_clinical_features :: "string option"
  cr_investigations :: "string option"
  cr_treatment :: "string option"
  cr_reference_citation :: string

record medication_row =
  mr_id :: int
  mr_generic_name :: string
  mr_chapter_number :: "int option"
  mr_section_number :: "string option"
  mr_page_number :: int
  mr_strength :: "string option"
  mr_route :: "string option"
  mr_dosage_info :: "string option"
  mr_reference_citation :: string

text \<open>
  The citation built while merging: \<open>Chapter n, Page p\<close>, replaced by the form with a
  section when \<open>section_num\<close> is truthy (conditions only).
\<close>

definition condition_reference :: "int option \<Rightarrow> string option \<Rightarrow> int \<Rightarrow> string" where
  "condition_reference chapter_num section_num page_num =
     (if truthy section_num
      then ''Chapter '' @ fmt_int_opt chapter_num @ '', Section '' @ the section_num
             @ '', Page '' @ str_int page_num
      else ''Chapter '' @ fmt_int_opt chapter_num @ '', Page '' @ str_int page_num)"

definition medication_reference :: "int option \<Rightarrow> int \<Rightarrow> string" where
  "medication_reference chapter_num page_num =
     ''Chapter '' @ fmt_int_opt chapter_num @ '', Page '' @ str_int page_num"

subsection \<open>\<open>_create_content_chunks\<close>\<close>

text \<open>
  A row inserted into \<open>content_chunks\<close>: the ten columns the INSERT statements supply.
  The key \<open>id\<close> is assigned by the store; \<open>embedding\<close> and \<open>created_at\<close> are not
  supplied.
\<close>

record content_chunk =
  ck_content :: string
  ck_chunk_type :: string
  ck_source_id :: int
  ck_chapter_number :: "int option"
  ck_chapter_title :: string
  ck_section_number :: "string option"
  ck_page_number :: int
  ck_condition_name :: string
  ck_reference_citation :: string
  ck_metadata :: string

fun get_chapter_title :: "toc_chapter list \<Rightarrow> int option \<Rightarrow> string" where
  "get_chapter_title [] chapter_num = ''''"
| "get_chapter_title (c # cs) chapter_num =
     (if Some (ch_number c) = chapter_num then ch_title c else get_chapter_title cs chapter_num)"

definition json_id_type :: "string \<Rightarrow> int \<Rightarrow> string \<Rightarrow> string" where
  \<comment> \<open>\<open>json.dumps({key: id, "type": ty})\<close> for a key and a type tag without characters to escape\<close>
  "json_id_type key i ty =
     ''{'' @ [CHR 0x22] @ key @ [CHR 0x22] @ '': '' @ str_int i @ '', ''
       @ [CHR 0x22] @ ''type'' @ [CHR 0x22] @ '': '' @ [CHR 0x22] @ ty @ [CHR 0x22] @ ''}''"

definition condition_chunk ::
  "toc_chapter list \<Rightarrow> condition_row \<Rightarrow> string \<Rightarrow> string \<Rightarrow> content_chunk" where
  "condition_chunk chapters row chunk_content ty =
     \<lparr> ck_content = take 2000 chunk_content,
       ck_chunk_type = ty,
       ck_source_id = cr_id row,
       ck_chapter_number = cr_chapter_number row,
       ck_chapter_title = get_chapter_title chapters (cr_chapter_number row),
       ck_section_number = cr_section_number row,
       ck_page_number = cr_page_number row,
       ck_condition_name = cr_name row,
       ck_reference_citation = cr_reference_citation row,
       ck_metadata = json_id_type ''condition_id'' (cr_id row) ty \<rparr>"

definition condition_chunks :: "toc_chapter list \<Rightarrow> condition_row \<Rightarrow> content_chunk list" where
  "condition_chunks chapters row =
     (if truthy (cr_treatment row)
      then [condition_chunk chapters row
              (''Treatment for '' @ cr_name row @ '': '' @ the (cr_treatment row)) ''treatment'']
      else [])
     @ (if truthy (cr_clinical_features row)
        then [condition_chunk chapters row
                (''Clinical features of '' @ cr_name row @ '': '' @ the (cr_clinical_features row))
                ''clinical_features'']
        else [])
     @ (if truthy (cr_investigations row)
        then [condition_chunk chapters row
                (''Investigations for '' @ cr_name row @ '': '' @ the (cr_investigations row))
                ''investigations'']
        else [])"

definition medication_content :: "medication_row \<Rightarrow> string" where
  "medication_content row =
     ''Medication: '' @ mr_generic_name row
     @ (if truthy (mr_strength row) then '', Strength: '' @ the (mr_strength row) else [])
     @ (if truthy (mr_route row) then '', Route: '' @ the (mr_route row) else [])
     @ (if truthy (mr_dosage_info row) then '', Dosage: '' @ the (mr_dosage_info row) else [])"

definition medication_chunk :: "toc_chapter list \<Rightarrow> medication_row \<Rightarrow> content_chunk" where
  "medication_chunk chapters row =
     \<lparr> ck_content = medication_content row,
       ck_chunk_type = ''medication'',
       ck_source_id = mr_id row,
       ck_chapter_number = mr_chapter_number row,
       ck_chapter_title = get_chapter_title chapters (mr_chapter_number row),
       ck_section_number = mr_section_number row,
       ck_page_number = mr_page_number row,
       ck_condition_name = mr_generic_name row,
       ck_reference_citation = mr_reference_citation row,
       ck_metadata = json_id_type ''medication_id'' (mr_id row) ''medication'' \<rparr>"

definition create_content_chunks ::
  "toc_chapter list \<Rightarrow> condition_row list \<Rightarrow> medication_row list \<Rightarrow> content_chunk list" where
  "create_content_chunks chapters conditions medications =
     concat (map (condition_chunks chapters) conditions) @ map (medication_chunk chapters) medications"


section \<open>Characters\<close>

text \<open>
  A character is a code point below 256.  The classes are those of Python's \<open>str\<close>
  methods and of \<open>re\<close> on \<open>str\<close> patterns, cut down to that range: white space,
  decimal digits, upper-case letters, letters that have an upper-case partner in the
  range, and word characters.
\<close>

definition ord :: "char \<Rightarrow> int" where
  "ord c = of_char c"

definition in_range :: "char \<Rightarrow> char \<Rightarrow> char \<Rightarrow> bool" where
  "in_range lo hi c = (ord lo \<le> ord c \<and> ord c \<le> ord hi)"

definition isspace :: "char \<Rightarrow> bool" where
  "isspace c = (in_range (CHR 0x09) (CHR 0x0D) c \<or> in_range (CHR 0x1C) (CHR 0x20) c
     \<or> c = CHR 0x85 \<or> c = CHR 0xA0)"

definition isdecimal :: "char \<Rightarrow> bool" where
  "isdecimal c = in_range (CHR ''0'') (CHR ''9'') c"

definition isupper :: "char \<Rightarrow> bool" where
  "isupper c = (in_range (CHR ''A'') (CHR ''Z'') c \<or> in_range (CHR 0xC0) (CHR 0xD6) c
     \<or> in_range (CHR 0xD8) (CHR 0xDE) c)"

definition has_upper :: "char \<Rightarrow> bool" where
  "has_upper c = (in_range (CHR ''a'') (CHR ''z'') c \<or> in_range (CHR 0xE0) (CHR 0xF6) c
     \<or> in_range (CHR 0xF8) (CHR 0xFE) c)"

definition isalpha :: "char \<Rightarrow> bool" where
  "isalpha c = (in_range (CHR ''A'') (CHR ''Z'') c \<or> in_range (CHR ''a'') (CHR ''z'') c
     \<or> c = CHR 0xAA \<or> c = CHR 0xB5 \<or> c = CHR 0xBA
     \<or> in_range (CHR 0xC0) (CHR 0xD6) c \<or> in_range (CHR 0xD8) (CHR 0xF6) c
     \<or> in_range (CHR 0xF8) (CHR 0xFF) c)"

definition isword :: "char \<Rightarrow> bool" where
  "isword c = (isalpha c \<or> isdecimal c \<or> c = CHR ''_''
     \<or> c = CHR 0xB2 \<or> c = CHR 0xB3 \<or> c = CHR 0xB9 \<or> in_range (CHR 0xBC) (CHR 0xBE) c)"

definition is_ascii_alnum :: "char \<Rightarrow> bool" where
  "is_ascii_alnum c = (in_range (CHR ''0'') (CHR ''9'') c \<or> in_range (CHR ''A'') (CHR ''Z'') c
     \<or> in_range (CHR ''a'') (CHR ''z'') c)"

definition lower_char :: "char \<Rightarrow> char" where
  "lower_char c = (if isupper c then char_of (ord c + 32) else c)"

definition upper_char :: "char \<Rightarrow> char" where
  "upper_char c = (if has_upper c then char_of (ord c - 32) else c)"

subsection \<open>Equations for evaluation\<close>

text \<open>
  Comparing two code points bit by bit, most significant bit first, and moving between
  the cases by setting or clearing bit 5, avoids arithmetic when a character is
  classified.
\<close>

fun bits_le :: "bool list \<Rightarrow> bool list \<Rightarrow> bool" where
  "bits_le (x # xs) (y # ys) = (if x = y then bits_le xs ys else y)"
| "bits_le xs ys = True"

fun bits_val :: "bool list \<Rightarrow> int" where
  "bits_val [] = 0"
| "bits_val (x # xs) = of_bool x * 2 ^ length xs + bits_val xs"

lemma bits_val_bounds: "0 \<le> bits_val xs \<and> bits_val xs < 2 ^ length xs"
  by (induction xs) auto

lemma bits_le_val: "length xs = length ys \<Longrightarrow> bits_le xs ys = (bits_val xs \<le> bits_val ys)"
proof (induction xs ys rule: bits_le.induct)
  case (1 x xs y ys)
  then have len: "length xs = length ys" by simp
  show ?case
  proof (cases "x = y")
    case True
    with 1 len show ?thesis by simp
  next
    case False
    have bx: "0 \<le> bits_val xs" "bits_val xs < 2 ^ length ys"
      using bits_val_bounds [of xs] len by simp_all
    have bnd: "0 \<le> bits_val ys" "bits_val ys < 2 ^ length ys"
      using bits_val_bounds [of ys] by simp_all
    from False bx bnd len show ?thesis by (cases x; cases y) auto
  qed
qed simp_all

lemma ord_Char:
  "ord (Char b0 b1 b2 b3 b4 b5 b6 b7) = bits_val [b7, b6, b5, b4, b3, b2, b1, b0]"
  by (simp add: ord_def)

lemma in_range_code [code]:
  "in_range (Char l0 l1 l2 l3 l4 l5 l6 l7) (Char h0 h1 h2 h3 h4 h5 h6 h7)
       (Char b0 b1 b2 b3 b4 b5 b6 b7) =
     (bits_le [l7, l6, l5, l4, l3, l2, l1, l0] [b7, b6, b5, b4, b3, b2, b1, b0]
      \<and> bits_le [b7, b6, b5, b4, b3, b2, b1, b0] [h7, h6, h5, h4, h3, h2, h1, h0])"
  unfolding in_range_def ord_Char by (simp add: bits_le_val del: bits_val.simps bits_le.simps)

lemma isupper_bit5: "isupper (Char b0 b1 b2 b3 b4 b5 b6 b7) \<Longrightarrow> \<not> b5"
  by (cases b7; cases b6; cases b5; cases b4; cases b3; cases b2; cases b1; cases b0;
      simp add: isupper_def in_range_def ord_def)

lemma has_upper_bit5: "has_upper (Char b0 b1 b2 b3 b4 b5 b6 b7) \<Longrightarrow> b5"
  by (cases b7; cases b6; cases b5; cases b4; cases b3; cases b2; cases b1; cases b0;
      simp add: has_upper_def in_range_def ord_def)

lemma lower_char_code [code]:
  "lower_char (Char b0 b1 b2 b3 b4 b5 b6 b7) =
     (if isupper (Char b0 b1 b2 b3 b4 b5 b6 b7) then Char b0 b1 b2 b3 b4 True b6 b7
      else Char b0 b1 b2 b3 b4 b5 b6 b7)"
proof (cases "isupper (Char b0 b1 b2 b3 b4 b5 b6 b7)")
  case True
  then have "\<not> b5" by (rule isupper_bit5)
  then have "char_of (ord (Char b0 b1 b2 b3 b4 b5 b6 b7) + 32) = Char b0 b1 b2 b3 b4 True b6 b7"
    by (simp add: ord_def char_of_def)
  with True show ?thesis by (simp add: lower_char_def)
next
  case False
  then show ?thesis by (simp add: lower_char_def)
qed

lemma upper_char_code [code]:
  "upper_char (Char b0 b1 b2 b3 b4 b5 b6 b7) =
     (if has_upper (Char b0 b1 b2 b3 b4 b5 b6 b7) then Char b0 b1 b2 b3 b4 False b6 b7
      else Char b0 b1 b2 b3 b4 b5 b6 b7)"
proof (cases "has_upper (Char b0 b1 b2 b3 b4 b5 b6 b7)")
  case True
  then have "b5" by (rule has_upper_bit5)
  then have "char_of (ord (Char b0 b1 b2 b3 b4 b5 b6 b7) - 32) = Char b0 b1 b2 b3 b4 False b6 b7"
    by (simp add: ord_def char_of_def)
  with True show ?thesis by (simp add: upper_char_def)
next
  case False
  then show ?thesis by (simp add: upper_char_def)
qed

section \<open>Regular expressions\<close>

datatype citem = CLit char | CRange char char | CSpace | CDigit | CWord

datatype regex =
    Eps
  | Lit char
  | Dot
  | Cls bool "citem list"
  | Bol
  | Eol
  | WordB
  | Seq regex regex
  | Alt regex regex
  | Star bool regex
  | Group nat regex

record re_flags =
  ignorecase :: bool
  dotall :: bool

subsection \<open>Reading a pattern\<close>

text \<open>
  A pattern is first cut into tokens and the tokens are then read by a machine with a
  stack of open groups.  The syntax covered is the one the patterns of the program use:
  literals, the dot, the anchors, the escapes for white space, digits, word characters
  and the word boundary, character classes with ranges and negation, capturing and
  non-capturing groups, alternation, and the greedy and lazy quantifiers with counted
  repetition.  Any other pattern is rejected, as an invalid one is.
\<close>

definition bslash :: char where
  "bslash = CHR 0x5C"

definition escape_item :: "char \<Rightarrow> citem option" where
  "escape_item c =
     (if c = CHR ''s'' then Some CSpace
      else if c = CHR ''d'' then Some CDigit
      else if c = CHR ''w'' then Some CWord
      else if c = CHR ''n'' then Some (CLit (CHR 0x0A))
      else if c = CHR ''t'' then Some (CLit (CHR 0x09))
      else if c = CHR ''r'' then Some (CLit (CHR 0x0D))
      else if is_ascii_alnum c then None
      else Some (CLit c))"

fun class_item :: "string \<Rightarrow> (citem \<times> string) option" where
  "class_item [] = None"
| "class_item (c # t) =
     (if c = bslash
      then (case t of [] \<Rightarrow> None
            | e # t' \<Rightarrow> (case escape_item e of None \<Rightarrow> None | Some i \<Rightarrow> Some (i, t')))
      else Some (CLit c, t))"

fun parse_class :: "nat \<Rightarrow> string \<Rightarrow> (citem list \<times> string) option" where
  "parse_class 0 s = None"
| "parse_class (Suc n) s =
     (case s of
        [] \<Rightarrow> None
      | c # t \<Rightarrow>
          if c = CHR '']'' then Some ([], t)
          else (case class_item s of
                  None \<Rightarrow> None
                | Some (lo, t1) \<Rightarrow>
                    (case t1 of
                       d # t2 \<Rightarrow>
                         if d = CHR ''-'' \<and> t2 \<noteq> [] \<and> hd t2 \<noteq> CHR '']''
                         then (case (lo, class_item t2) of
                                 (CLit a, Some (CLit b, t3)) \<Rightarrow>
                                   if ord a \<le> ord b
                                   then (case parse_class n t3 of
                                           None \<Rightarrow> None
                                         | Some (is, t4) \<Rightarrow> Some (CRange a b # is, t4))
                                   else None
                               | _ \<Rightarrow> None)
                         else (case parse_class n t1 of
                                 None \<Rightarrow> None
                               | Some (is, t4) \<Rightarrow> Some (lo # is, t4))
                     | [] \<Rightarrow> None)))"

fun mk_seq :: "regex \<Rightarrow> regex \<Rightarrow> regex" where
  "mk_seq r Eps = r"
| "mk_seq r r2 = Seq r r2"

fun rep_exact :: "nat \<Rightarrow> regex \<Rightarrow> regex" where
  "rep_exact 0 r = Eps"
| "rep_exact (Suc n) r = mk_seq r (rep_exact n r)"

fun rep_upto :: "bool \<Rightarrow> nat \<Rightarrow> regex \<Rightarrow> regex" where
  "rep_upto g 0 r = Eps"
| "rep_upto g (Suc n) r =
     (if g then Alt (mk_seq r (rep_upto g n r)) Eps else Alt Eps (mk_seq r (rep_upto g n r)))"

fun take_digits :: "string \<Rightarrow> string \<times> string" where
  "take_digits [] = ([], [])"
| "take_digits (c # t) =
     (if isdecimal c then (case take_digits t of (ds, t') \<Rightarrow> (c # ds, t')) else ([], c # t))"

definition digits_value :: "string \<Rightarrow> int" where
  "digits_value ds = foldl (\<lambda>v c. 10 * v + (ord c - 48)) 0 ds"

definition parse_count :: "string \<Rightarrow> (nat \<times> nat \<times> string) option" where
  \<comment> \<open>the text after an opening brace: \<open>m}\<close> or \<open>m,n}\<close>\<close>
  "parse_count s =
     (case take_digits s of
        (ds, t) \<Rightarrow>
          if ds = [] then None
          else (case t of
                  c # t1 \<Rightarrow>
                    if c = CHR ''}'' then Some (nat (digits_value ds), nat (digits_value ds), t1)
                    else if c = CHR '','' then
                      (case take_digits t1 of
                         (es, t2) \<Rightarrow>
                           (case t2 of
                              e # t3 \<Rightarrow>
                                if e = CHR ''}'' \<and> es \<noteq> [] \<and> digits_value ds \<le> digits_value es
                                then Some (nat (digits_value ds), nat (digits_value es), t3)
                                else None
                            | [] \<Rightarrow> None))
                    else None
                | [] \<Rightarrow> None))"

definition lazy_suffix :: "string \<Rightarrow> bool \<times> string" where
  \<comment> \<open>a question mark after a quantifier makes it lazy; the flag is True for greedy\<close>
  "lazy_suffix s = (case s of [] \<Rightarrow> (True, []) | c # t \<Rightarrow> if c = CHR ''?'' then (False, t) else (True, s))"

datatype token =
    TAtom regex
  | TAnchor regex
  | TStar bool
  | TPlus bool
  | TOpt bool
  | TCount nat nat bool
  | TOpen
  | TOpenNC
  | TClose
  | TBar

datatype ckind =
    KPlain | KBackslash | KOpen | KClose | KBracket | KBar | KStar | KPlus | KQuest | KBrace
  | KDot | KCaret | KDollar

definition kind :: "char \<Rightarrow> ckind" where
  "kind c =
     (if c = bslash then KBackslash
      else if c = CHR ''('' then KOpen
      else if c = CHR '')'' then KClose
      else if c = CHR ''['' then KBracket
      else if c = CHR ''|'' then KBar
      else if c = CHR ''*'' then KStar
      else if c = CHR ''+'' then KPlus
      else if c = CHR ''?'' then KQuest
      else if c = CHR ''{'' then KBrace
      else if c = CHR ''.'' then KDot
      else if c = CHR ''^'' then KCaret
      else if c = CHR ''$'' then KDollar
      else KPlain)"

lemma kind_code [code]:
  "kind (Char b0 b1 b2 b3 b4 b5 b6 b7) =
     (if b7 then KPlain else (if b6 then (if b5 then (if b4 then (if b3 then (if b2 then
     (if b1 then KPlain else (if b0 then KPlain else KBar)) else (if b1 then (if b0 then
     KBrace else KPlain) else KPlain)) else KPlain) else KPlain) else (if b4 then (if b3
     then (if b2 then (if b1 then (if b0 then KPlain else KCaret) else (if b0 then KPlain
     else KBackslash)) else (if b1 then (if b0 then KBracket else KPlain) else KPlain))
     else KPlain) else KPlain)) else (if b5 then (if b4 then (if b3 then (if b2 then (if b1
     then (if b0 then KQuest else KPlain) else KPlain) else KPlain) else KPlain) else (if
     b3 then (if b2 then (if b1 then (if b0 then KPlain else KDot) else KPlain) else (if b1
     then (if b0 then KPlus else KStar) else (if b0 then KClose else KOpen))) else (if b2
     then (if b1 then KPlain else (if b0 then KPlain else KDollar)) else KPlain))) else
     KPlain)))"
  by (cases b7; cases b6; cases b5; cases b4; cases b3; cases b2; cases b1; cases b0;
      simp add: kind_def bslash_def)


definition escape_token :: "char \<Rightarrow> token option" where
  "escape_token c =
     (if c = CHR ''b'' then Some (TAnchor WordB)
      else (case escape_item c of
              None \<Rightarrow> None
            | Some (CLit x) \<Rightarrow> Some (TAtom (Lit x))
            | Some i \<Rightarrow> Some (TAtom (Cls False [i]))))"

definition open_token :: "string \<Rightarrow> (token \<times> string) option" where
  \<comment> \<open>the text after an opening parenthesis\<close>
  "open_token t =
     (case t of
        [] \<Rightarrow> Some (TOpen, t)
      | q # t1 \<Rightarrow>
          if q = CHR ''?''
          then (case t1 of
                  [] \<Rightarrow> None
                | k # t2 \<Rightarrow> if k = CHR '':'' then Some (TOpenNC, t2) else None)
          else Some (TOpen, t))"

definition class_body :: "bool \<Rightarrow> string \<Rightarrow> (token \<times> string) option" where
  "class_body neg t =
     (case parse_class (length t) t of
        None \<Rightarrow> None
      | Some (items, rest) \<Rightarrow> if items = [] then None else Some (TAtom (Cls neg items), rest))"

definition class_token :: "string \<Rightarrow> (token \<times> string) option" where
  \<comment> \<open>the text after an opening bracket\<close>
  "class_token t =
     (case t of
        [] \<Rightarrow> None
      | q # t1 \<Rightarrow> if q = CHR ''^'' then class_body True t1 else class_body False t)"

fun next_token :: "ckind \<Rightarrow> char \<Rightarrow> string \<Rightarrow> (token \<times> string) option" where
  "next_token KPlain c t = Some (TAtom (Lit c), t)"
| "next_token KDot c t = Some (TAtom Dot, t)"
| "next_token KCaret c t = Some (TAnchor Bol, t)"
| "next_token KDollar c t = Some (TAnchor Eol, t)"
| "next_token KBar c t = Some (TBar, t)"
| "next_token KClose c t = Some (TClose, t)"
| "next_token KStar c t = Some (TStar (fst (lazy_suffix t)), snd (lazy_suffix t))"
| "next_token KPlus c t = Some (TPlus (fst (lazy_suffix t)), snd (lazy_suffix t))"
| "next_token KQuest c t = Some (TOpt (fst (lazy_suffix t)), snd (lazy_suffix t))"
| "next_token KBrace c t =
     (case parse_count t of
        None \<Rightarrow> None
      | Some (m, n, t1) \<Rightarrow> Some (TCount m n (fst (lazy_suffix t1)), snd (lazy_suffix t1)))"
| "next_token KBackslash c t =
     (case t of
        [] \<Rightarrow> None
      | e # t1 \<Rightarrow> (case escape_token e of None \<Rightarrow> None | Some tok \<Rightarrow> Some (tok, t1)))"
| "next_token KOpen c t = open_token t"
| "next_token KBracket c t = class_token t"

fun tokenize :: "nat \<Rightarrow> string \<Rightarrow> token list \<Rightarrow> token list option"
  and tokenize_next :: "nat \<Rightarrow> (token \<times> string) option \<Rightarrow> token list \<Rightarrow> token list option" where
  "tokenize n [] acc = Some (rev acc)"
| "tokenize 0 (c # t) acc = None"
| "tokenize (Suc n) (c # t) acc = tokenize_next n (next_token (kind c) c t) acc"
| "tokenize_next n None acc = None"
| "tokenize_next n (Some (tok, rest)) acc = tokenize n rest (tok # acc)"

text \<open>
  A frame is an open group: its number when it captures, the alternatives already
  closed and the items of the alternative being read, both latest first.  The state
  also holds the number of the next capturing group and whether a quantifier may
  follow: it may after an atom or a closed group, and nowhere else.
\<close>

datatype frame = Frame "nat option" "regex list" "regex list"

datatype pstate = PError | PState "frame list" nat bool

fun seq_of :: "regex list \<Rightarrow> regex" where
  "seq_of [] = Eps"
| "seq_of [r] = r"
| "seq_of (r # rs) = Seq r (seq_of rs)"

fun alt_of :: "regex list \<Rightarrow> regex" where
  "alt_of [] = Eps"
| "alt_of [r] = r"
| "alt_of (r # rs) = Alt r (alt_of rs)"

fun frame_regex :: "frame \<Rightarrow> regex" where
  "frame_regex (Frame None alts items) = alt_of (rev (seq_of (rev items) # alts))"
| "frame_regex (Frame (Some k) alts items) = Group k (alt_of (rev (seq_of (rev items) # alts)))"

fun step :: "pstate \<Rightarrow> token \<Rightarrow> pstate" where
  "step (PState (Frame g alts items # stack) k rp) (TAtom r) =
     PState (Frame g alts (r # items) # stack) k True"
| "step (PState (Frame g alts items # stack) k rp) (TAnchor r) =
     PState (Frame g alts (r # items) # stack) k False"
| "step (PState stack k rp) TOpen = PState (Frame (Some k) [] [] # stack) (Suc k) False"
| "step (PState stack k rp) TOpenNC = PState (Frame None [] [] # stack) k False"
| "step (PState (Frame g alts items # stack) k rp) TBar =
     PState (Frame g (seq_of (rev items) # alts) [] # stack) k False"
| "step (PState (inner # Frame g alts items # stack) k rp) TClose =
     PState (Frame g alts (frame_regex inner # items) # stack) k True"
| "step (PState (Frame g alts (r # items) # stack) k True) (TStar gr) =
     PState (Frame g alts (Star gr r # items) # stack) k False"
| "step (PState (Frame g alts (r # items) # stack) k True) (TPlus gr) =
     PState (Frame g alts (Seq r (Star gr r) # items) # stack) k False"
| "step (PState (Frame g alts (r # items) # stack) k True) (TOpt gr) =
     PState (Frame g alts ((if gr then Alt r Eps else Alt Eps r) # items) # stack) k False"
| "step (PState (Frame g alts (r # items) # stack) k True) (TCount m n gr) =
     PState (Frame g alts (mk_seq (rep_exact m r) (rep_upto gr (n - m) r) # items) # stack) k False"
| "step st tok = PError"

fun finish :: "pstate \<Rightarrow> regex option" where
  "finish (PState [inner] k rp) = Some (frame_regex inner)"
| "finish st = None"

definition re_parse :: "string \<Rightarrow> regex option" where
  "re_parse pat =
     (case tokenize (length pat) pat [] of
        None \<Rightarrow> None
      | Some toks \<Rightarrow> finish (foldl step (PState [Frame None [] []] 1 False) toks))"

definition esc :: "string \<Rightarrow> string" where
  "esc s = map (\<lambda>c. if c = CHR ''%'' then bslash else c) s"

subsection \<open>Matching\<close>

type_synonym captures = "(nat \<times> string) list"
type_synonym mstate = "string \<times> char option \<times> captures"

definition lit_match :: "re_flags \<Rightarrow> char \<Rightarrow> char \<Rightarrow> bool" where
  "lit_match fl x c = (if ignorecase fl then lower_char c = lower_char x else c = x)"

fun item_match :: "bool \<Rightarrow> char \<Rightarrow> citem \<Rightarrow> bool" where
  "item_match ic c (CLit x) = (c = (if ic then lower_char x else x))"
| "item_match ic c (CRange a b) =
     (in_range a b c \<or> (ic \<and> has_upper c \<and> in_range a b (upper_char c)))"
| "item_match ic c CSpace = isspace c"
| "item_match ic c CDigit = isdecimal c"
| "item_match ic c CWord = isword c"

definition cls_match :: "re_flags \<Rightarrow> bool \<Rightarrow> citem list \<Rightarrow> char \<Rightarrow> bool" where
  "cls_match fl neg items c =
     (list_ex (item_match (ignorecase fl) (if ignorecase fl then lower_char c else c)) items \<noteq> neg)"

definition one_char :: "(char \<Rightarrow> bool) \<Rightarrow> mstate \<Rightarrow> mstate list" where
  "one_char P st =
     (case st of (s, prev, caps) \<Rightarrow>
        (case s of [] \<Rightarrow> [] | c # t \<Rightarrow> if P c then [(t, Some c, caps)] else []))"

definition word_before :: "char option \<Rightarrow> bool" where
  "word_before prev = (case prev of None \<Rightarrow> False | Some c \<Rightarrow> isword c)"

definition word_after :: "string \<Rightarrow> bool" where
  "word_after s = (case s of [] \<Rightarrow> False | c # t \<Rightarrow> isword c)"

fun rsize :: "regex \<Rightarrow> nat" where
  "rsize (Seq a b) = Suc (rsize a + rsize b)"
| "rsize (Alt a b) = Suc (rsize a + rsize b)"
| "rsize (Star g a) = Suc (rsize a)"
| "rsize (Group n a) = Suc (rsize a)"
| "rsize r = 0"

function match_paths :: "re_flags \<Rightarrow> regex \<Rightarrow> mstate \<Rightarrow> mstate list" where
  "match_paths fl Eps st = [st]"
| "match_paths fl (Lit x) st = one_char (lit_match fl x) st"
| "match_paths fl Dot st = one_char (\<lambda>c. dotall fl \<or> c \<noteq> CHR 0x0A) st"
| "match_paths fl (Cls neg items) st = one_char (cls_match fl neg items) st"
| "match_paths fl Bol st = (if fst (snd st) = None then [st] else [])"
| "match_paths fl Eol st = (if fst st = [] \<or> fst st = [CHR 0x0A] then [st] else [])"
| "match_paths fl WordB st = (if word_before (fst (snd st)) \<noteq> word_after (fst st) then [st] else [])"
| "match_paths fl (Seq a b) st = concat (map (match_paths fl b) (match_paths fl a st))"
| "match_paths fl (Alt a b) st = match_paths fl a st @ match_paths fl b st"
| "match_paths fl (Star g a) st =
     (let more = concat (map (match_paths fl (Star g a))
                   (filter (\<lambda>st'. length (fst st') < length (fst st)) (match_paths fl a st)))
      in if g then more @ [st] else st # more)"
| "match_paths fl (Group n a) st =
     map (\<lambda>st'. (fst st', fst (snd st'),
                  (n, take (length (fst st) - length (fst st')) (fst st)) # snd (snd st')))
       (match_paths fl a st)"
  by pat_completeness auto
termination
  by (relation "inv_image (less_than <*lex*> less_than) (\<lambda>(fl, r, st). (rsize r, length (fst st)))")
    auto


subsection \<open>search, match, finditer, sub\<close>

record re_match =
  m_pre :: string
  m_text :: string
  m_caps :: captures
  m_rest :: string
  m_last :: "char option"

definition first_match :: "re_flags \<Rightarrow> regex \<Rightarrow> bool \<Rightarrow> char option \<Rightarrow> string \<Rightarrow> re_match option" where
  "first_match fl r must_advance prev s =
     (case filter (\<lambda>st. if must_advance then length (fst st) < length s else True)
             (match_paths fl r (s, prev, [])) of
        [] \<Rightarrow> None
      | st # _ \<Rightarrow>
          Some \<lparr> m_pre = [], m_text = take (length s - length (fst st)) s, m_caps = snd (snd st),
                 m_rest = fst st, m_last = fst (snd st) \<rparr>)"

fun search_from :: "re_flags \<Rightarrow> regex \<Rightarrow> bool \<Rightarrow> char option \<Rightarrow> string \<Rightarrow> re_match option" where
  "search_from fl r adv prev [] = first_match fl r adv prev []"
| "search_from fl r adv prev (c # t) =
     (case first_match fl r adv prev (c # t) of
        Some m \<Rightarrow> Some m
      | None \<Rightarrow>
          (case search_from fl r False (Some c) t of
             None \<Rightarrow> None
           | Some m \<Rightarrow> Some (m\<lparr> m_pre := c # m_pre m \<rparr>)))"

definition scan_weight :: "bool \<Rightarrow> string \<Rightarrow> nat" where
  "scan_weight adv s = 2 * length s + (if adv then 0 else 1)"

function finditer_from :: "re_flags \<Rightarrow> regex \<Rightarrow> bool \<Rightarrow> char option \<Rightarrow> string \<Rightarrow> re_match list" where
  "finditer_from fl r adv prev s =
     (case search_from fl r adv prev s of
        None \<Rightarrow> []
      | Some m \<Rightarrow>
          m # (if scan_weight (m_text m = []) (m_rest m) < scan_weight adv s
               then finditer_from fl r (m_text m = []) (m_last m) (m_rest m)
               else []))"
  by pat_completeness auto
termination
  by (relation "measure (\<lambda>(fl, r, adv, prev, s). scan_weight adv s)") auto

fun sub_build :: "string \<Rightarrow> string \<Rightarrow> re_match list \<Rightarrow> string" where
  "sub_build repl s [] = s"
| "sub_build repl s (m # others) = m_pre m @ repl @ sub_build repl (m_rest m) others"

definition group :: "re_match \<Rightarrow> nat \<Rightarrow> string option" where
  "group m k = (if k = 0 then Some (m_text m) else map_of (m_caps m) k)"


fun max_group :: "regex \<Rightarrow> nat" where
  "max_group (Seq a b) = max (max_group a) (max_group b)"
| "max_group (Alt a b) = max (max_group a) (max_group b)"
| "max_group (Star g a) = max_group a"
| "max_group (Group n a) = max n (max_group a)"
| "max_group r = 0"

section \<open>Python strings and errors\<close>

datatype py_error = ReError | AttributeError | TypeError | ValueError | IndexError

definition rbind :: "py_error + 'a \<Rightarrow> ('a \<Rightarrow> py_error + 'b) \<Rightarrow> py_error + 'b" where
  "rbind v f = (case v of Inl e \<Rightarrow> Inl e | Inr x \<Rightarrow> f x)"

definition lstrip :: "string \<Rightarrow> string" where
  "lstrip s = dropWhile isspace s"

definition rstrip :: "string \<Rightarrow> string" where
  "rstrip s = rev (dropWhile isspace (rev s))"

definition strip :: "string \<Rightarrow> string" where
  "strip s = lstrip (rstrip s)"

definition lower :: "string \<Rightarrow> string" where
  "lower s = map lower_char s"

fun split_on :: "char \<Rightarrow> string \<Rightarrow> string list" where
  "split_on d [] = [[]]"
| "split_on d (c # t) =
     (if c = d then [] # split_on d t
      else (case split_on d t of [] \<Rightarrow> [[c]] | x # xs \<Rightarrow> (c # x) # xs))"

function split_ws :: "string \<Rightarrow> string list" where
  "split_ws s =
     (if dropWhile isspace s = [] then []
      else takeWhile (\<lambda>c. \<not> isspace c) (dropWhile isspace s)
             # split_ws (dropWhile (\<lambda>c. \<not> isspace c) (dropWhile isspace s)))"
  by pat_completeness auto
termination
proof (relation "measure length")
  show "wf (measure length)" by simp
next
  fix s :: string
  assume ne: "dropWhile isspace s \<noteq> []"
  then obtain c t where ct: "dropWhile isspace s = c # t" by (cases "dropWhile isspace s") auto
  then have "\<not> isspace c" using hd_dropWhile [of isspace s] by simp
  then have "length (dropWhile (\<lambda>c. \<not> isspace c) (c # t)) \<le> length t"
    by (simp add: length_dropWhile_le)
  moreover have "length (c # t) \<le> length s"
    using length_dropWhile_le [of isspace s] ct by simp
  ultimately show "(dropWhile (\<lambda>c. \<not> isspace c) (dropWhile isspace s), s) \<in> measure length"
    using ct by simp
qed

fun starts_with :: "string \<Rightarrow> string \<Rightarrow> bool" where
  "starts_with s [] = True"
| "starts_with [] (p # ps) = False"
| "starts_with (c # s) (p # ps) = (c = p \<and> starts_with s ps)"

fun contains :: "string \<Rightarrow> string \<Rightarrow> bool" where
  "contains [] sub = (sub = [])"
| "contains (c # s) sub = (starts_with (c # s) sub \<or> contains s sub)"

fun join :: "string \<Rightarrow> string list \<Rightarrow> string" where
  "join sep [] = []"
| "join sep [x] = x"
| "join sep (x # y # zs) = x @ sep @ join sep (y # zs)"

definition py_int :: "string \<Rightarrow> py_error + int" where
  "py_int s = (if s \<noteq> [] \<and> list_all isdecimal s then Inr (digits_value s) else Inl ValueError)"

definition fmt_opt :: "string option \<Rightarrow> string" where
  "fmt_opt v = (case v of None \<Rightarrow> ''None'' | Some s \<Rightarrow> s)"

subsection \<open>The functions of module re\<close>

definition no_flags :: re_flags where
  "no_flags = \<lparr> ignorecase = False, dotall = False \<rparr>"

definition IGNORECASE :: re_flags where
  "IGNORECASE = \<lparr> ignorecase = True, dotall = False \<rparr>"

definition IGNORECASE_DOTALL :: re_flags where
  "IGNORECASE_DOTALL = \<lparr> ignorecase = True, dotall = True \<rparr>"

definition re_compile :: "string \<Rightarrow> py_error + regex" where
  "re_compile pat = (case re_parse pat of None \<Rightarrow> Inl ReError | Some r \<Rightarrow> Inr r)"

definition re_search :: "string \<Rightarrow> string \<Rightarrow> re_flags \<Rightarrow> py_error + re_match option" where
  "re_search pat s fl = rbind (re_compile pat) (\<lambda>r. Inr (search_from fl r False None s))"

definition re_match :: "string \<Rightarrow> string \<Rightarrow> re_flags \<Rightarrow> py_error + re_match option" where
  "re_match pat s fl = rbind (re_compile pat) (\<lambda>r. Inr (first_match fl r False None s))"

definition re_finditer :: "string \<Rightarrow> string \<Rightarrow> re_flags \<Rightarrow> py_error + re_match list" where
  "re_finditer pat s fl = rbind (re_compile pat) (\<lambda>r. Inr (finditer_from fl r False None s))"

definition re_sub :: "string \<Rightarrow> string \<Rightarrow> string \<Rightarrow> py_error + string" where
  "re_sub pat repl s =
     rbind (re_compile pat) (\<lambda>r. Inr (sub_build repl s (finditer_from no_flags r False None s)))"

definition groups_count :: "string \<Rightarrow> nat" where
  \<comment> \<open>\<open>len(match.groups())\<close> for a match of the pattern\<close>
  "groups_count pat = (case re_parse pat of None \<Rightarrow> 0 | Some r \<Rightarrow> max_group r)"

definition group_strip :: "re_match \<Rightarrow> nat \<Rightarrow> py_error + string" where
  \<comment> \<open>\<open>match.group(k).strip()\<close>: a group that took no part in the match is \<open>None\<close>\<close>
  "group_strip m k = (case group m k of None \<Rightarrow> Inl AttributeError | Some g \<Rightarrow> Inr (strip g))"

definition group_str :: "re_match \<Rightarrow> nat \<Rightarrow> py_error + string" where
  \<comment> \<open>a group passed to \<open>int\<close>, which rejects \<open>None\<close>\<close>
  "group_str m k = (case group m k of None \<Rightarrow> Inl TypeError | Some g \<Rightarrow> Inr g)"

section \<open>The extractor\<close>

record medical_condition =
  mc_name :: string
  mc_icd_code :: "string option"
  mc_clinical_features :: string
  mc_investigations :: string
  mc_treatment :: string
  mc_page_number :: int

record medical_treatment =
  mt_condition_name :: string
  mt_first_line :: string
  mt_second_line :: string
  mt_dosage :: string
  mt_duration :: string
  mt_page_number :: int

record medication =
  md_name :: string
  md_page_number :: int
  md_strength :: "string option"
  md_route :: "string option"

definition condition_patterns :: "string list" where
  "condition_patterns = map esc
     [''^([A-Z][a-zA-Z%s%-]+?)%s*%((?:ICD[:%s-]*)?([A-Z]%d{2}(?:%.%d+)?)%)'',
      ''^((?:Acute|Chronic|Severe|Mild|Primary|Secondary)%s+[A-Za-z%s]+)$'',
      ''^([A-Z][a-z]+(?:itis|osis|emia|pathy|trophy|plasia|oma))%s*'',
      ''^([A-Z][a-z]+%s+(?:infection|disease|syndrome|disorder))%s*'',
      ''^([A-Z][a-z]+%s+(?:pain|fever|cough|diarr?hoea))%s*'']"

definition medical_sections :: "(string \<times> string list) list" where
  "medical_sections =
     [(''clinical_features'',
        [''clinical features'', ''signs and symptoms'', ''clinical presentation'',
         ''presenting features'', ''clinical manifestations'']),
      (''investigations'',
        [''investigations'', ''diagnostic tests'', ''laboratory tests'',
         ''diagnostic procedures'', ''tests required'']),
      (''treatment'',
        [''treatment'', ''management'', ''therapy'', ''drug therapy'',
         ''pharmacological treatment'', ''medication'']),
      (''complications'',
        [''complications'', ''sequelae'', ''adverse outcomes''])]"

definition treatment_patterns :: "string list" where
  "treatment_patterns = map esc
     [''First[- ]line[:%s]+([^.%n]+)'',
      ''Second[- ]line[:%s]+([^.%n]+)'',
      ''Alternative[:%s]+([^.%n]+)'',
      ''Drug[:%s]+([A-Z][a-z]+(?:%s+%d+%s*mg)?)'',
      ''Dose[:%s]+([^.%n]+)'',
      ''Duration[:%s]+([^.%n]+)'']"

definition medication_patterns :: "string list" where
  "medication_patterns = map esc
     [''([A-Z][a-z]+)%s+(%d+(?:%.%d+)?)%s*(mg|g|ml|IU|mcg|units?)(?:%s+(%w+))?'',
      ''([A-Z][a-z]+)%s+(?:tablets?|capsules?|injection|syrup)%s+(%d+(?:%.%d+)?)%s*(mg|ml)'']"

definition skip_patterns :: "string list" where
  "skip_patterns = map esc
     [''Department of'', ''Ministry of'', ''University of'', ''World Health'', ''Ghana National'',
      ''Table of Contents'', ''Chapter %d+'', ''Page %d+'', ''%d{4}'']"

subsection \<open>\<open>_extract_section_content\<close> and \<open>_extract_clinical_features\<close>\<close>

definition section_pattern :: "string \<Rightarrow> string" where
  "section_pattern keyword =
     keyword @ esc ''[:%s]+(.*?)(?:'' @ join ''$|'' (concat (map snd medical_sections)) @ ''|$)''"

definition clean_content :: "nat \<Rightarrow> re_match \<Rightarrow> py_error + string" where
  "clean_content cap m =
     rbind (group_strip m 1) (\<lambda>content.
     rbind (re_sub (esc ''%s+'') '' '' content) (\<lambda>content.
     Inr (if length content > cap then take cap content else content)))"

fun section_content_loop :: "string \<Rightarrow> string list \<Rightarrow> py_error + string" where
  "section_content_loop text [] = Inr []"
| "section_content_loop text (keyword # keywords) =
     (case re_search (section_pattern keyword) text IGNORECASE_DOTALL of
        Inl e \<Rightarrow> Inl e
      | Inr None \<Rightarrow> section_content_loop text keywords
      | Inr (Some m) \<Rightarrow> clean_content 300 m)"

definition extract_section_content :: "string \<Rightarrow> string \<Rightarrow> py_error + string" where
  "extract_section_content text section_type =
     (case map_of medical_sections section_type of
        None \<Rightarrow> Inr []
      | Some keywords \<Rightarrow> section_content_loop text keywords)"

definition cf_patterns :: "string list" where
  "cf_patterns = map esc
     [''clinical features[:%s]+(.*?)(?:investigations|treatment|complications|$)'',
      ''signs and symptoms[:%s]+(.*?)(?:investigations|treatment|complications|$)'',
      ''presentation[:%s]+(.*?)(?:investigations|treatment|complications|$)'']"

fun clinical_features_loop :: "string \<Rightarrow> string list \<Rightarrow> py_error + string" where
  "clinical_features_loop text [] = Inr []"
| "clinical_features_loop text (pattern # patterns) =
     (case re_search pattern text IGNORECASE_DOTALL of
        Inl e \<Rightarrow> Inl e
      | Inr None \<Rightarrow> clinical_features_loop text patterns
      | Inr (Some m) \<Rightarrow> clean_content 500 m)"

definition extract_clinical_features :: "string \<Rightarrow> string \<Rightarrow> py_error + string" where
  "extract_clinical_features text condition_name = clinical_features_loop text cf_patterns"

subsection \<open>The validators\<close>

definition medical_indicators :: "string list" where
  "medical_indicators =
     [''infection'', ''disease'', ''syndrome'', ''disorder'', ''pain'', ''fever'',
      ''itis'', ''osis'', ''emia'', ''pathy'', ''trophy'', ''plasia'', ''oma'',
      ''acute'', ''chronic'', ''severe'', ''mild'', ''primary'', ''secondary'',
      ''malaria'', ''pneumonia'', ''diarrhea'', ''hypertension'', ''diabetes'']"

definition first_isupper :: "string \<Rightarrow> py_error + bool" where
  \<comment> \<open>\<open>name[0].isupper()\<close>\<close>
  "first_isupper name = (case name of [] \<Rightarrow> Inl IndexError | c # t \<Rightarrow> Inr (isupper c))"

definition is_valid_medical_condition :: "string \<Rightarrow> py_error + bool" where
  "is_valid_medical_condition name =
     (if length name < 5 \<or> length name > 60 then Inr False
      else if list_ex (contains name)
                [''Department'', ''Ministry'', ''University'', ''Ghana'', ''WHO'']
      then Inr False
      else rbind (re_search (esc ''^%d+'') name no_flags) (\<lambda>leading_number.
           if leading_number \<noteq> None then Inr False
           else rbind (re_search (esc ''%b%d{4}%b'') name no_flags) (\<lambda>year.
           if year \<noteq> None then Inr False
           else if list_ex (contains (lower name)) medical_indicators then Inr True
           else rbind (first_isupper name) (\<lambda>up.
           if up \<and> length (split_ws name) \<le> 4 then Inr True else Inr False))))"

definition skip_words :: "string list" where
  "skip_words = [''Table'', ''Page'', ''Chapter'', ''Section'', ''And'', ''The'', ''For'', ''With'']"

definition is_valid_medication_name :: "string \<Rightarrow> py_error + bool" where
  "is_valid_medication_name name =
     (if length name < 3 \<or> length name > 30 then Inr False
      else rbind (first_isupper name) (\<lambda>up.
           if \<not> up then Inr False
           else if list_ex (contains name) skip_words then Inr False
           else Inr True))"

subsection \<open>\<open>_extract_conditions_from_page\<close>\<close>

fun any_search :: "string list \<Rightarrow> string \<Rightarrow> py_error + bool" where
  "any_search [] line = Inr False"
| "any_search (pattern # patterns) line =
     (case re_search pattern line no_flags of
        Inl e \<Rightarrow> Inl e
      | Inr None \<Rightarrow> any_search patterns line
      | Inr (Some m) \<Rightarrow> Inr True)"

definition build_condition ::
  "string \<Rightarrow> int \<Rightarrow> string \<Rightarrow> re_match \<Rightarrow> string \<Rightarrow> py_error + medical_condition" where
  "build_condition text page_num pattern m condition_name =
     rbind (extract_clinical_features text condition_name) (\<lambda>features.
     rbind (extract_section_content text ''investigations'') (\<lambda>investigations.
     rbind (extract_section_content text ''treatment'') (\<lambda>treatment.
     Inr \<lparr> mc_name = condition_name,
           mc_icd_code = (if groups_count pattern > 1 then group m 2 else Some []),
           mc_clinical_features = features,
           mc_investigations = investigations,
           mc_treatment = treatment,
           mc_page_number = page_num \<rparr>)))"

fun condition_pattern_loop ::
  "string \<Rightarrow> int \<Rightarrow> string \<Rightarrow> string list \<Rightarrow> py_error + medical_condition option" where
  "condition_pattern_loop text page_num line [] = Inr None"
| "condition_pattern_loop text page_num line (pattern # patterns) =
     (case re_search pattern line no_flags of
        Inl e \<Rightarrow> Inl e
      | Inr None \<Rightarrow> condition_pattern_loop text page_num line patterns
      | Inr (Some m) \<Rightarrow>
          (case group_strip m 1 of
             Inl e \<Rightarrow> Inl e
           | Inr condition_name \<Rightarrow>
               (case is_valid_medical_condition condition_name of
                  Inl e \<Rightarrow> Inl e
                | Inr valid \<Rightarrow>
                    if valid
                    then rbind (build_condition text page_num pattern m condition_name)
                           (\<lambda>condition. Inr (Some condition))
                    else condition_pattern_loop text page_num line patterns)))"

definition condition_of_line :: "string \<Rightarrow> int \<Rightarrow> string \<Rightarrow> py_error + medical_condition option" where
  "condition_of_line text page_num raw_line =
     (let line = strip raw_line in
      if length line < 5 \<or> length line > 100 then Inr None
      else rbind (any_search skip_patterns line) (\<lambda>skip.
           if skip then Inr None
           else condition_pattern_loop text page_num line condition_patterns))"

fun conditions_of_lines :: "string \<Rightarrow> int \<Rightarrow> string list \<Rightarrow> py_error + medical_condition list" where
  "conditions_of_lines text page_num [] = Inr []"
| "conditions_of_lines text page_num (line # lines) =
     (case condition_of_line text page_num line of
        Inl e \<Rightarrow> Inl e
      | Inr found \<Rightarrow>
          (case conditions_of_lines text page_num lines of
             Inl e \<Rightarrow> Inl e
           | Inr conditions \<Rightarrow>
               Inr ((case found of None \<Rightarrow> [] | Some condition \<Rightarrow> [condition]) @ conditions)))"

definition extract_conditions_from_page :: "string \<Rightarrow> int \<Rightarrow> py_error + medical_condition list" where
  "extract_conditions_from_page text page_num =
     conditions_of_lines text page_num (split_on (CHR 0x0A) text)"

subsection \<open>\<open>_extract_treatments_from_page\<close>\<close>

definition make_treatment :: "string \<Rightarrow> string \<Rightarrow> int \<Rightarrow> string \<Rightarrow> medical_treatment" where
  "make_treatment pattern condition_name page_num treatment_text =
     (let treatment = \<lparr> mt_condition_name = condition_name, mt_first_line = [],
                         mt_second_line = [], mt_dosage = [], mt_duration = [],
                         mt_page_number = page_num \<rparr>;
          pattern_lower = lower pattern
      in if contains pattern_lower ''first'' then treatment\<lparr> mt_first_line := treatment_text \<rparr>
         else if contains pattern_lower ''second'' \<or> contains pattern_lower ''alternative''
         then treatment\<lparr> mt_second_line := treatment_text \<rparr>
         else if contains pattern_lower ''dose'' then treatment\<lparr> mt_dosage := treatment_text \<rparr>
         else if contains pattern_lower ''duration'' then treatment\<lparr> mt_duration := treatment_text \<rparr>
         else treatment\<lparr> mt_first_line := treatment_text \<rparr>)"

fun treatments_of_matches ::
  "string \<Rightarrow> string \<Rightarrow> int \<Rightarrow> re_match list \<Rightarrow> py_error + medical_treatment list" where
  "treatments_of_matches pattern condition_name page_num [] = Inr []"
| "treatments_of_matches pattern condition_name page_num (m # matches) =
     (case group_strip m 1 of
        Inl e \<Rightarrow> Inl e
      | Inr treatment_text \<Rightarrow>
          (case treatments_of_matches pattern condition_name page_num matches of
             Inl e \<Rightarrow> Inl e
           | Inr treatments \<Rightarrow>
               Inr (if length treatment_text > 5
                    then make_treatment pattern condition_name page_num treatment_text # treatments
                    else treatments)))"

fun treatments_loop ::
  "string \<Rightarrow> string \<Rightarrow> int \<Rightarrow> string list \<Rightarrow> py_error + medical_treatment list" where
  "treatments_loop text condition_name page_num [] = Inr []"
| "treatments_loop text condition_name page_num (pattern # patterns) =
     (case re_finditer pattern text IGNORECASE of
        Inl e \<Rightarrow> Inl e
      | Inr matches \<Rightarrow>
          (case treatments_of_matches pattern condition_name page_num matches of
             Inl e \<Rightarrow> Inl e
           | Inr found \<Rightarrow>
               (case treatments_loop text condition_name page_num patterns of
                  Inl e \<Rightarrow> Inl e
                | Inr treatments \<Rightarrow> Inr (found @ treatments))))"

definition extract_treatments_from_page ::
  "string \<Rightarrow> string \<Rightarrow> int \<Rightarrow> py_error + medical_treatment list" where
  "extract_treatments_from_page text condition_name page_num =
     treatments_loop text condition_name page_num treatment_patterns"

subsection \<open>\<open>_extract_medications_from_page\<close>\<close>

definition make_medication :: "string \<Rightarrow> re_match \<Rightarrow> string \<Rightarrow> int \<Rightarrow> medication" where
  "make_medication pattern m med_name page_num =
     \<lparr> md_name = med_name,
       md_page_number = page_num,
       md_strength = (if groups_count pattern \<ge> 3
                      then Some (fmt_opt (group m 2) @ fmt_opt (group m 3)) else None),
       md_route = (if groups_count pattern \<ge> 4 \<and> truthy (group m 4) then group m 4 else None) \<rparr>"

fun medications_of_matches :: "string \<Rightarrow> int \<Rightarrow> re_match list \<Rightarrow> py_error + medication list" where
  "medications_of_matches pattern page_num [] = Inr []"
| "medications_of_matches pattern page_num (m # matches) =
     (case group_strip m 1 of
        Inl e \<Rightarrow> Inl e
      | Inr med_name \<Rightarrow>
          (case is_valid_medication_name med_name of
             Inl e \<Rightarrow> Inl e
           | Inr valid \<Rightarrow>
               (case medications_of_matches pattern page_num matches of
                  Inl e \<Rightarrow> Inl e
                | Inr medications \<Rightarrow>
                    Inr (if valid then make_medication pattern m med_name page_num # medications
                         else medications))))"

fun medications_loop :: "string \<Rightarrow> int \<Rightarrow> string list \<Rightarrow> py_error + medication list" where
  "medications_loop text page_num [] = Inr []"
| "medications_loop text page_num (pattern # patterns) =
     (case re_finditer pattern text no_flags of
        Inl e \<Rightarrow> Inl e
      | Inr matches \<Rightarrow>
          (case medications_of_matches pattern page_num matches of
             Inl e \<Rightarrow> Inl e
           | Inr found \<Rightarrow>
               (case medications_loop text page_num patterns of
                  Inl e \<Rightarrow> Inl e
                | Inr medications \<Rightarrow> Inr (found @ medications))))"

definition extract_medications_from_page :: "string \<Rightarrow> int \<Rightarrow> py_error + medication list" where
  "extract_medications_from_page text page_num = medications_loop text page_num medication_patterns"

subsection \<open>\<open>extract_medical_content\<close>: the sequential page scan\<close>

text \<open>
  The PDF library is outside the program: \<open>get_text n\<close> stands for
  \<open>doc[n].get_text()\<close> and \<open>total_pages\<close> for \<open>len(doc)\<close>.  The state of the loop is
  the three result lists, the current condition and the page counter; the result of
  the function is the state handed to \<open>_store_medical_data\<close>, or nothing when the
  start page lies beyond the document.
\<close>

record scan_state =
  st_conditions :: "medical_condition list"
  st_treatments :: "medical_treatment list"
  st_medications :: "medication list"
  st_current_condition :: "medical_condition option"
  st_pages_processed :: nat

definition initial_state :: scan_state where
  "initial_state = \<lparr> st_conditions = [], st_treatments = [], st_medications = [],
                      st_current_condition = None, st_pages_processed = 0 \<rparr>"

definition scan_page :: "(int \<Rightarrow> string) \<Rightarrow> scan_state \<Rightarrow> int \<Rightarrow> py_error + scan_state" where
  "scan_page get_text st page_num =
     rbind (extract_conditions_from_page (get_text page_num) (page_num + 1)) (\<lambda>page_conditions.
     let current_condition =
           (if page_conditions \<noteq> [] then Some (last page_conditions) else st_current_condition st)
     in
     rbind (case current_condition of
              None \<Rightarrow> Inr []
            | Some c \<Rightarrow> extract_treatments_from_page (get_text page_num) (mc_name c) (page_num + 1))
       (\<lambda>page_treatments.
     rbind (extract_medications_from_page (get_text page_num) (page_num + 1)) (\<lambda>page_medications.
     Inr \<lparr> st_conditions = st_conditions st @ page_conditions,
           st_treatments = st_treatments st @ page_treatments,
           st_medications = st_medications st @ page_medications,
           st_current_condition = current_condition,
           st_pages_processed = Suc (st_pages_processed st) \<rparr>)))"

fun scan_pages :: "(int \<Rightarrow> string) \<Rightarrow> scan_state \<Rightarrow> int list \<Rightarrow> py_error + scan_state" where
  "scan_pages get_text st [] = Inr st"
| "scan_pages get_text st (page_num # page_nums) =
     (case scan_page get_text st page_num of
        Inl e \<Rightarrow> Inl e
      | Inr st' \<Rightarrow> scan_pages get_text st' page_nums)"

definition extract_medical_content ::
  "(int \<Rightarrow> string) \<Rightarrow> int \<Rightarrow> int \<Rightarrow> int \<Rightarrow> py_error + scan_state option" where
  "extract_medical_content get_text total_pages start_page max_pages =
     (if start_page \<ge> total_pages then Inr None
      else rbind (scan_pages get_text initial_state
                    [start_page - 1 .. min (start_page + max_pages) total_pages - 1])
             (\<lambda>st. Inr (Some st)))"

section \<open>Parsing the table of contents\<close>

definition chapter_line_pattern :: string where
  "chapter_line_pattern = esc ''Chapter%s+(%d+)%.%s+(.+?)%.+%s*(%d+)''"

definition section_line_pattern :: string where
  "section_line_pattern = esc ''(%d{1,3})%.%s+([^.]+?)%.+%s*(%d+)''"

definition group_int :: "re_match \<Rightarrow> nat \<Rightarrow> py_error + int" where
  \<comment> \<open>\<open>int(match.group(k))\<close>\<close>
  "group_int m k = rbind (group_str m k) py_int"

text \<open>
  The loop that places a section: the first chapter of the list whose start page does
  not exceed the section's page takes it, and the loop stops there.
\<close>

fun assign_section :: "toc_chapter list \<Rightarrow> toc_section \<Rightarrow> toc_chapter list" where
  "assign_section [] s = []"
| "assign_section (c # cs) s =
     (if ch_start_page c \<le> sec_page s
      then c\<lparr> ch_sections := ch_sections c @ [s] \<rparr> # cs
      else c # assign_section cs s)"

definition chapter_of_line :: "string \<Rightarrow> py_error + toc_chapter option" where
  "chapter_of_line line =
     rbind (re_match chapter_line_pattern line no_flags) (\<lambda>chapter_match.
     case chapter_match of
       None \<Rightarrow> Inr None
     | Some m \<Rightarrow>
         rbind (group_int m 1) (\<lambda>n.
         rbind (group_strip m 2) (\<lambda>t.
         rbind (group_int m 3) (\<lambda>p.
         Inr (Some \<lparr> ch_number = n, ch_title = t, ch_start_page = p, ch_sections = [] \<rparr>)))))"

definition section_of_line :: "string \<Rightarrow> py_error + toc_section option" where
  "section_of_line line =
     rbind (re_match section_line_pattern line no_flags) (\<lambda>section_match.
     case section_match of
       None \<Rightarrow> Inr None
     | Some m \<Rightarrow>
         rbind (group_int m 1) (\<lambda>n.
         if n > 100
         then rbind (group_str m 1) (\<lambda>num.
              rbind (group_strip m 2) (\<lambda>t.
              rbind (group_int m 3) (\<lambda>p.
              Inr (Some \<lparr> sec_number = num, sec_title = t, sec_page = p \<rparr>))))
         else Inr None))"

definition toc_line :: "toc_chapter list \<Rightarrow> string \<Rightarrow> py_error + toc_chapter list" where
  "toc_line chapters line =
     rbind (chapter_of_line line) (\<lambda>chapter.
     rbind (section_of_line line) (\<lambda>section.
     let chapters1 = (case chapter of None \<Rightarrow> chapters | Some c \<Rightarrow> chapters @ [c])
     in Inr (case section of None \<Rightarrow> chapters1 | Some s \<Rightarrow> assign_section chapters1 s)))"

fun toc_lines :: "toc_chapter list \<Rightarrow> string list \<Rightarrow> py_error + toc_chapter list" where
  "toc_lines chapters [] = Inr chapters"
| "toc_lines chapters (line # lines) =
     (case toc_line chapters line of
        Inl e \<Rightarrow> Inl e
      | Inr chapters' \<Rightarrow> toc_lines chapters' lines)"

fun toc_pages :: "(int \<Rightarrow> string) \<Rightarrow> toc_chapter list \<Rightarrow> int list \<Rightarrow> py_error + toc_chapter list" where
  "toc_pages get_text chapters [] = Inr chapters"
| "toc_pages get_text chapters (page_num # page_nums) =
     (case toc_lines chapters (split_on (CHR 0x0A) (get_text page_num)) of
        Inl e \<Rightarrow> Inl e
      | Inr chapters' \<Rightarrow> toc_pages get_text chapters' page_nums)"

definition extract_chapters :: "(int \<Rightarrow> string) \<Rightarrow> py_error + toc_chapter list" where
  "extract_chapters get_text = toc_pages get_text [] [2 .. 8]"

section \<open>Example data\<close>

definition ex_chapter_a :: toc_chapter where
  "ex_chapter_a = \<lparr> ch_number = 1, ch_title = ''General'', ch_start_page = 10,
       ch_sections = [\<lparr> sec_number = ''101'', sec_title = ''Fever'', sec_page = 12 \<rparr>] \<rparr>"

definition ex_chapter_b :: toc_chapter where
  "ex_chapter_b = \<lparr> ch_number = 2, ch_title = ''Malaria'', ch_start_page = 50, ch_sections = [] \<rparr>"

definition ex_condition_row :: condition_row where
  "ex_condition_row = \<lparr> cr_id = 7, cr_name = ''Severe Malaria'', cr_chapter_number = Some 2,
       cr_section_number = None, cr_page_number = 60,
       cr_clinical_features = Some ''fever'', cr_investigations = Some ''blood film'',
       cr_treatment = Some ''artesunate'',
       cr_reference_citation = ''Chapter 2, Page 60'' \<rparr>"

definition ex_long_medication_row :: medication_row where
  "ex_long_medication_row = \<lparr> mr_id = 1, mr_generic_name = ''Aspirin'', mr_chapter_number = Some 2,
       mr_section_number = None, mr_page_number = 60,
       mr_strength = Some (replicate 2000 (CHR ''1'') @ ''mg''), mr_route = None,
       mr_dosage_info = None, mr_reference_citation = ''Chapter 2, Page 60'' \<rparr>"

definition ex_get_text :: "int \<Rightarrow> string" where
  "ex_get_text n =
     (if n = 0 then ''Severe Malaria\<newline>First-line: Artesunate IV.'' else ''Dose: 500 mg daily'')"

definition ex_dose_text :: "int \<Rightarrow> string" where
  "ex_dose_text n = ''Dose: 500 mg daily''"

definition ex_chapter_100 :: toc_chapter where
  "ex_chapter_100 = \<lparr> ch_number = 18, ch_title = ''Malaria'', ch_start_page = 100, ch_sections = [] \<rparr>"

definition ex_chapter_150 :: toc_chapter where
  "ex_chapter_150 = \<lparr> ch_number = 19, ch_title = ''Worm Infestations'', ch_start_page = 150,
       ch_sections = [] \<rparr>"

section \<open>The location resolver\<close>

lemma find_section_loop_filter:
  "find_section_loop p ss sn =
     (case filter (\<lambda>s. sec_page s \<le> p) ss of [] \<Rightarrow> sn | xs \<Rightarrow> Some (sec_number (last xs)))"
  by (induction ss arbitrary: sn) (auto split: list.splits)

lemma fst_find_chapter_loop:
  "fst (find_chapter_loop p cs (cn, sn)) =
     (case filter (\<lambda>c. ch_start_page c \<le> p) cs of [] \<Rightarrow> cn | xs \<Rightarrow> Some (ch_number (last xs)))"
  by (induction cs arbitrary: cn sn) (auto split: list.splits)

lemma sorted_last_greatest:
  "sorted (map f xs) \<Longrightarrow> xs \<noteq> [] \<Longrightarrow> x \<in> set xs \<Longrightarrow> (f x :: int) \<le> f (last xs)"
  by (induction xs) (auto split: if_splits)

lemma sorted_map_filter:
  "sorted (map f xs) \<Longrightarrow> sorted (map f (filter P xs))"
  by (induction xs) auto

text \<open>
  Claim C1.  For a chapter list sorted by \<open>start_page\<close> and any page \<open>p\<close>: the resolver
  returns no chapter exactly when every chapter starts after \<open>p\<close>; otherwise it returns
  the number of a chapter whose \<open>start_page\<close> is the greatest one not exceeding \<open>p\<close>; and
  every chapter's own \<open>start_page\<close> resolves to that chapter (start pages being unique,
  as the data model has them).
\<close>

theorem find_chapter_greatest_start_page:
  assumes "sorted (map ch_start_page cs)"
  shows "(fst (find_chapter_section cs p) = None \<longleftrightarrow> (\<forall>c\<in>set cs. p < ch_start_page c))
     \<and> ((\<exists>c\<in>set cs. ch_start_page c \<le> p) \<longrightarrow>
          (\<exists>c\<in>set cs. fst (find_chapter_section cs p) = Some (ch_number c) \<and> ch_start_page c \<le> p
             \<and> (\<forall>c'\<in>set cs. ch_start_page c' \<le> p \<longrightarrow> ch_start_page c' \<le> ch_start_page c)))
     \<and> (\<forall>c\<in>set cs. (\<forall>c'\<in>set cs. ch_start_page c' = ch_start_page c \<longrightarrow> c' = c) \<longrightarrow>
          fst (find_chapter_section cs (ch_start_page c)) = Some (ch_number c))"
proof -
  have res: "fst (find_chapter_section cs q) =
     (case filter (\<lambda>c. ch_start_page c \<le> q) cs of [] \<Rightarrow> None | xs \<Rightarrow> Some (ch_number (last xs)))" for q
    by (simp add: find_chapter_section_def fst_find_chapter_loop)
  have greatest: "\<exists>c\<in>set cs. fst (find_chapter_section cs q) = Some (ch_number c) \<and> ch_start_page c \<le> q
             \<and> (\<forall>c'\<in>set cs. ch_start_page c' \<le> q \<longrightarrow> ch_start_page c' \<le> ch_start_page c)"
    if ex: "\<exists>c\<in>set cs. ch_start_page c \<le> q" for q
  proof -
    let ?xs = "filter (\<lambda>c. ch_start_page c \<le> q) cs"
    from ex have ne: "?xs \<noteq> []" by (auto simp: filter_empty_conv)
    then have in_xs: "last ?xs \<in> set ?xs" by (rule last_in_set)
    have srt: "sorted (map ch_start_page ?xs)" using assms by (rule sorted_map_filter)
    have r: "fst (find_chapter_section cs q) = Some (ch_number (last ?xs))"
      using ne by (simp add: res split: list.splits)
    have "ch_start_page c' \<le> ch_start_page (last ?xs)" if "c' \<in> set cs" "ch_start_page c' \<le> q" for c'
      using sorted_last_greatest [OF srt ne, of c'] that by simp
    with in_xs r show ?thesis by auto
  qed
  have none: "fst (find_chapter_section cs p) = None \<longleftrightarrow> (\<forall>c\<in>set cs. p < ch_start_page c)"
  proof -
    have "fst (find_chapter_section cs p) = None \<longleftrightarrow> filter (\<lambda>c. ch_start_page c \<le> p) cs = []"
      by (simp add: res split: list.splits)
    then show ?thesis by (auto simp: filter_empty_conv not_le)
  qed
  have boundary: "fst (find_chapter_section cs (ch_start_page c)) = Some (ch_number c)"
    if "c \<in> set cs" and uniq: "\<forall>c'\<in>set cs. ch_start_page c' = ch_start_page c \<longrightarrow> c' = c" for c
  proof -
    from that have "\<exists>c'\<in>set cs. ch_start_page c' \<le> ch_start_page c" by auto
    from greatest [OF this] obtain d where d: "d \<in> set cs"
      "fst (find_chapter_section cs (ch_start_page c)) = Some (ch_number d)"
      "ch_start_page d \<le> ch_start_page c"
      "\<forall>c'\<in>set cs. ch_start_page c' \<le> ch_start_page c \<longrightarrow> ch_start_page c' \<le> ch_start_page d"
      by blast
    from d(4) that(1) have "ch_start_page c \<le> ch_start_page d" by simp
    with d(3) have "ch_start_page d = ch_start_page c" by simp
    with uniq d(1) have "d = c" by blast
    with d(2) show ?thesis by simp
  qed
  from none greatest boundary show ?thesis by blast
qed

theorem find_chapter_greatest_start_page_witness:
  "sorted (map ch_start_page [ex_chapter_a, ex_chapter_b])
   \<and> ex_chapter_a \<in> set [ex_chapter_a, ex_chapter_b]
   \<and> ch_start_page ex_chapter_a \<le> 49
   \<and> fst (find_chapter_section [ex_chapter_a, ex_chapter_b] 49) = Some 1
   \<and> fst (find_chapter_section [ex_chapter_a, ex_chapter_b] 50) = Some 2
   \<and> fst (find_chapter_section [ex_chapter_a, ex_chapter_b] (ch_start_page ex_chapter_a)) = Some (ch_number ex_chapter_a)
   \<and> fst (find_chapter_section [ex_chapter_a, ex_chapter_b] 9) = None"
proof -
  have h: "sorted (map ch_start_page [ex_chapter_a, ex_chapter_b])"
    by (simp add: ex_chapter_a_def ex_chapter_b_def)
  show ?thesis
    using h find_chapter_greatest_start_page [OF h, of 49]
      find_chapter_greatest_start_page [OF h, of 50]
      find_chapter_greatest_start_page [OF h, of 9]
    by (simp add: ex_chapter_a_def ex_chapter_b_def)
qed

text \<open>
  Claim C2.  The section returned for a page need not belong to the chapter returned
  for it: \<open>section_num\<close> is not cleared when a later chapter matches.  With a first
  chapter (start page 10) holding section 101 at page 12 and a second chapter (start
  page 50) without sections, page 60 resolves to chapter 2 together with section 101
  of chapter 1.
\<close>

theorem find_chapter_section_keeps_earlier_section:
  "find_chapter_section [ex_chapter_a, ex_chapter_b] 60 = (Some 2, Some ''101'')
   \<and> filter (\<lambda>s. sec_page s \<le> 60) (ch_sections ex_chapter_b) = []"
  by (simp add: find_chapter_section_def ex_chapter_a_def ex_chapter_b_def)

section \<open>The chunk builder\<close>

lemma condition_chunk_content_le_cap:
  "k \<in> set (condition_chunks chapters row) \<Longrightarrow> length (ck_content k) \<le> 2000"
  by (auto simp: condition_chunks_def condition_chunk_def split: if_splits)

text \<open>
  Claim C3.  Wherever a condition row with non-empty treatment, clinical features and
  investigations stands in the table, and whatever medication rows there are, the chunk
  builder emits for it exactly three chunks, between the chunks of the rows before it
  and those of the rows after it: their types are treatment, clinical\_features and
  investigations, pairwise distinct, and all three carry the row's reference citation,
  identifier and name, with the contents cut at 2000 characters.
\<close>

theorem condition_chunks_three_distinct_types:
  assumes "cr_treatment row = Some t" and "t \<noteq> []"
    and "cr_clinical_features row = Some f" and "f \<noteq> []"
    and "cr_investigations row = Some i" and "i \<noteq> []"
  shows "\<exists>ks. create_content_chunks chapters (pre @ row # post) meds
            = create_content_chunks chapters pre [] @ ks @ create_content_chunks chapters post meds
     \<and> length ks = 3
     \<and> map ck_chunk_type ks = [''treatment'', ''clinical_features'', ''investigations'']
     \<and> distinct (map ck_chunk_type ks)
     \<and> map ck_reference_citation ks = replicate 3 (cr_reference_citation row)
     \<and> map ck_source_id ks = replicate 3 (cr_id row)
     \<and> map ck_condition_name ks = replicate 3 (cr_name row)
     \<and> map ck_content ks =
           [take 2000 (''Treatment for '' @ cr_name row @ '': '' @ t),
            take 2000 (''Clinical features of '' @ cr_name row @ '': '' @ f),
            take 2000 (''Investigations for '' @ cr_name row @ '': '' @ i)]"
proof -
  let ?ks = "condition_chunks chapters row"
  have split: "create_content_chunks chapters (pre @ row # post) meds
      = create_content_chunks chapters pre [] @ ?ks @ create_content_chunks chapters post meds"
    by (simp add: create_content_chunks_def)
  have three: "?ks =
      [condition_chunk chapters row (''Treatment for '' @ cr_name row @ '': '' @ t) ''treatment'',
       condition_chunk chapters row (''Clinical features of '' @ cr_name row @ '': '' @ f)
         ''clinical_features'',
       condition_chunk chapters row (''Investigations for '' @ cr_name row @ '': '' @ i)
         ''investigations'']"
    using assms by (simp add: condition_chunks_def truthy_def)
  have props: "length ?ks = 3
     \<and> map ck_chunk_type ?ks = [''treatment'', ''clinical_features'', ''investigations'']
     \<and> distinct (map ck_chunk_type ?ks)
     \<and> map ck_reference_citation ?ks = replicate 3 (cr_reference_citation row)
     \<and> map ck_source_id ?ks = replicate 3 (cr_id row)
     \<and> map ck_condition_name ?ks = replicate 3 (cr_name row)
     \<and> map ck_content ?ks =
           [take 2000 (''Treatment for '' @ cr_name row @ '': '' @ t),
            take 2000 (''Clinical features of '' @ cr_name row @ '': '' @ f),
            take 2000 (''Investigations for '' @ cr_name row @ '': '' @ i)]"
    unfolding three by (simp add: condition_chunk_def numeral_3_eq_3)
  show ?thesis
    by (rule exI [where x = "condition_chunks chapters row"], rule conjI, rule split, rule props)
qed

theorem condition_chunks_three_distinct_types_witness:
  "cr_treatment ex_condition_row = Some ''artesunate''
   \<and> cr_clinical_features ex_condition_row = Some ''fever''
   \<and> cr_investigations ex_condition_row = Some ''blood film''
   \<and> map ck_chunk_type
        (create_content_chunks [] ([ex_condition_row] @ ex_condition_row # [])
           [ex_long_medication_row])
       = [''treatment'', ''clinical_features'', ''investigations'',
          ''treatment'', ''clinical_features'', ''investigations'', ''medication'']"
proof -
  have h: "cr_treatment ex_condition_row = Some ''artesunate''" "''artesunate'' \<noteq> []"
    "cr_clinical_features ex_condition_row = Some ''fever''" "''fever'' \<noteq> []"
    "cr_investigations ex_condition_row = Some ''blood film''" "''blood film'' \<noteq> []"
    by (simp_all add: ex_condition_row_def)
  from condition_chunks_three_distinct_types
         [OF h, of "[]" "[ex_condition_row]" "[]" "[ex_long_medication_row]"]
  obtain ks where k: "create_content_chunks [] ([ex_condition_row] @ ex_condition_row # [])
       [ex_long_medication_row]
     = create_content_chunks [] [ex_condition_row] [] @ ks
       @ create_content_chunks [] [] [ex_long_medication_row]
     \<and> length ks = 3
     \<and> map ck_chunk_type ks = [''treatment'', ''clinical_features'', ''investigations'']"
    by (elim exE conjE) (rule that, intro conjI)
  from k have ks: "create_content_chunks [] ([ex_condition_row] @ ex_condition_row # [])
       [ex_long_medication_row]
     = create_content_chunks [] [ex_condition_row] [] @ ks
       @ create_content_chunks [] [] [ex_long_medication_row]"
    by (rule conjunct1)
  from k have types: "map ck_chunk_type ks = [''treatment'', ''clinical_features'', ''investigations'']"
    by (rule conjunct2 [OF conjunct2])
  have first: "map ck_chunk_type (create_content_chunks [] [ex_condition_row] [])
      = [''treatment'', ''clinical_features'', ''investigations'']"
    by (simp add: create_content_chunks_def condition_chunks_def condition_chunk_def
        truthy_def ex_condition_row_def)
  have last: "map ck_chunk_type (create_content_chunks [] [] [ex_long_medication_row])
      = [''medication'']"
    by (simp add: create_content_chunks_def medication_chunk_def)
  from h ks types first last show ?thesis by simp
qed

text \<open>
  Claim C4.  The three condition chunks are cut at 2000 characters, the medication
  chunk is stored uncut: for a medication row whose strength is 2000 digits followed
  by \<open>mg\<close>, the single chunk emitted has a content of 2033 characters.
\<close>

theorem medication_chunk_content_exceeds_cap:
  "map (\<lambda>k. length (ck_content k)) (create_content_chunks [] [] [ex_long_medication_row]) = [2033]"
  by (simp add: create_content_chunks_def medication_chunk_def medication_content_def
      ex_long_medication_row_def truthy_def)


end
